theory Spec2Isabelle
  imports Complex_Main
begin

section \<open>JavaScript values of the bills server\<close>

text \<open>
  The server (\<^verbatim>\<open>server/index.js\<close>) computes with JavaScript numbers. A number is
  modelled as an exact rational extended with \<open>NaN\<close> and the two infinities: the special
  values decide several branches of the code (\<^verbatim>\<open>Number.isNaN\<close>, \<^verbatim>\<open>x || 0\<close>), the rounding
  of IEEE doubles decides none of the properties below and is not represented.
\<close>

datatype number = NaN | NegInf | Fin rat | PosInf

text \<open>\<^verbatim>\<open>a + b\<close> on numbers.\<close>

fun add :: "number \<Rightarrow> number \<Rightarrow> number" where
  "add NaN _ = NaN"
| "add _ NaN = NaN"
| "add PosInf NegInf = NaN"
| "add NegInf PosInf = NaN"
| "add PosInf _ = PosInf"
| "add _ PosInf = PosInf"
| "add NegInf _ = NegInf"
| "add _ NegInf = NegInf"
| "add (Fin a) (Fin b) = Fin (a + b)"

fun neg :: "number \<Rightarrow> number" where
  "neg NaN = NaN"
| "neg NegInf = PosInf"
| "neg PosInf = NegInf"
| "neg (Fin a) = Fin (- a)"

text \<open>\<^verbatim>\<open>a - b\<close> on numbers.\<close>

definition sub :: "number \<Rightarrow> number \<Rightarrow> number" where
  "sub a b = add a (neg b)"

text \<open>\<^verbatim>\<open>a <= b\<close> on numbers: false as soon as one side is \<open>NaN\<close>.\<close>

fun le :: "number \<Rightarrow> number \<Rightarrow> bool" where
  "le NaN _ = False"
| "le _ NaN = False"
| "le NegInf _ = True"
| "le _ PosInf = True"
| "le PosInf _ = False"
| "le _ NegInf = False"
| "le (Fin a) (Fin b) = (a \<le> b)"

text \<open>\<^verbatim>\<open>a >= b\<close> on numbers.\<close>

definition ge :: "number \<Rightarrow> number \<Rightarrow> bool" where
  "ge a b = le b a"


text \<open>Truthiness of a number: \<open>NaN\<close> and zero are falsy.\<close>

fun truthy_number :: "number \<Rightarrow> bool" where
  "truthy_number NaN = False"
| "truthy_number (Fin a) = (a \<noteq> 0)"
| "truthy_number _ = True"

section \<open>Strings and dynamically typed request fields\<close>

text \<open>
  Strings are sequences of code units, here characters below 256. The white space that
  \<^verbatim>\<open>trim\<close> and the string-to-number conversion strip: tab, line feed, vertical tab, form
  feed, carriage return, space and no-break space.
\<close>

definition isWhiteSpace :: "char \<Rightarrow> bool" where
  "isWhiteSpace c =
     (c \<in> set [CHR 0x09, CHR 0x0A, CHR 0x0B, CHR 0x0C, CHR 0x0D, CHR 0x20, CHR 0xA0])"

definition trim :: "string \<Rightarrow> string" where
  "trim s = rev (dropWhile isWhiteSpace (rev (dropWhile isWhiteSpace s)))"

text \<open>The value of a digit character (hexadecimal digits included), 16 for any other.\<close>

definition digitValue :: "char \<Rightarrow> nat" where
  "digitValue c =
     (let n = (of_char c :: nat)
      in if 48 \<le> n \<and> n \<le> 57 then n - 48
         else if 97 \<le> n \<and> n \<le> 102 then n - 87
         else if 65 \<le> n \<and> n \<le> 70 then n - 55
         else 16)"

definition isDigitOf :: "nat \<Rightarrow> char \<Rightarrow> bool" where
  "isDigitOf base c = (digitValue c < base)"

definition digitsValue :: "nat \<Rightarrow> string \<Rightarrow> nat" where
  "digitsValue base ds = foldl (\<lambda>acc c. base * acc + digitValue c) 0 ds"

text \<open>\<^verbatim>\<open>0x\<close>, \<^verbatim>\<open>0o\<close> and \<^verbatim>\<open>0b\<close> literals: at least one digit of the base, nothing else.\<close>

definition radixLiteral :: "nat \<Rightarrow> string \<Rightarrow> number" where
  "radixLiteral base ds =
     (if ds \<noteq> [] \<and> list_all (isDigitOf base) ds then Fin (of_nat (digitsValue base ds))
      else NaN)"

text \<open>
  What follows the mantissa of a decimal literal: nothing, or an exponent part
  (\<^verbatim>\<open>e\<close> or \<^verbatim>\<open>E\<close>, an optional sign, at least one digit). \<open>None\<close> for anything else.
\<close>

definition exponentPart :: "string \<Rightarrow> int option" where
  "exponentPart r =
     (case r of
        [] \<Rightarrow> Some 0
      | c # r' \<Rightarrow>
          if c = CHR ''e'' \<or> c = CHR ''E'' then
            (let neg_exp = (r' \<noteq> [] \<and> hd r' = CHR ''-'');
                 ds = (if r' \<noteq> [] \<and> (hd r' = CHR ''-'' \<or> hd r' = CHR ''+'') then tl r' else r')
             in if ds \<noteq> [] \<and> list_all (isDigitOf 10) ds
                then Some (if neg_exp then - int (digitsValue 10 ds) else int (digitsValue 10 ds))
                else None)
          else None)"

definition scale10 :: "rat \<Rightarrow> int \<Rightarrow> rat" where
  "scale10 v e = (if 0 \<le> e then v * 10 ^ nat e else v / 10 ^ nat (- e))"

text \<open>
  An unsigned decimal literal: \<^verbatim>\<open>Infinity\<close>, or digits with an optional fraction and an
  optional exponent, with at least one digit before or after the point.
\<close>

definition unsignedDecimal :: "string \<Rightarrow> number" where
  "unsignedDecimal r =
     (if r = ''Infinity'' then PosInf
      else
        let ip = takeWhile (isDigitOf 10) r;
            r1 = dropWhile (isDigitOf 10) r;
            hasDot = (r1 \<noteq> [] \<and> hd r1 = CHR ''.'');
            fp = (if hasDot then takeWhile (isDigitOf 10) (tl r1) else []);
            r2 = (if hasDot then dropWhile (isDigitOf 10) (tl r1) else r1)
        in if ip = [] \<and> fp = [] then NaN
           else case exponentPart r2 of
                  None \<Rightarrow> NaN
                | Some e \<Rightarrow>
                    Fin (scale10 (of_nat (digitsValue 10 ip)
                                  + of_nat (digitsValue 10 fp) / 10 ^ length fp) e))"

text \<open>
  The conversion of a string to a number (\<^verbatim>\<open>Number(s)\<close> on a string): white space is
  stripped, the empty string is \<open>0\<close>, a numeric literal is its value, anything else is
  \<open>NaN\<close>.
\<close>

definition StringToNumber :: "string \<Rightarrow> number" where
  "StringToNumber s =
     (let t = trim s
      in if t = [] then Fin 0
         else if take 2 t = ''0x'' \<or> take 2 t = ''0X'' then radixLiteral 16 (drop 2 t)
         else if take 2 t = ''0o'' \<or> take 2 t = ''0O'' then radixLiteral 8 (drop 2 t)
         else if take 2 t = ''0b'' \<or> take 2 t = ''0B'' then radixLiteral 2 (drop 2 t)
         else if hd t = CHR ''-'' then neg (unsignedDecimal (tl t))
         else if hd t = CHR ''+'' then unsignedDecimal (tl t)
         else unsignedDecimal t)"

text \<open>
  A value found in a parsed request body, or \<open>JUndefined\<close> for a field that is absent.
\<close>

datatype jsval =
    JUndefined
  | JNull
  | JBool bool
  | JNum number
  | JStr string
  | JArr "jsval list"
  | JObj "(string \<times> jsval) list"

text \<open>Truthiness, as \<^verbatim>\<open>!x\<close>, \<^verbatim>\<open>x || y\<close> and \<^verbatim>\<open>x ? a : b\<close> test it.\<close>

fun truthy :: "jsval \<Rightarrow> bool" where
  "truthy JUndefined = False"
| "truthy JNull = False"
| "truthy (JBool b) = b"
| "truthy (JNum n) = truthy_number n"
| "truthy (JStr s) = (s \<noteq> [])"
| "truthy (JArr _) = True"
| "truthy (JObj _) = True"

text \<open>
  \<^verbatim>\<open>Number(x)\<close>. An array converts through its string form: the empty array is \<open>0\<close>, a
  one-element array converts as its element does (\<open>null\<close> and \<open>undefined\<close> print as the
  empty string, a number prints as a literal of itself, a boolean or an object prints as
  a word that is no literal), an array of two or more elements prints with a comma and
  is \<open>NaN\<close>.
\<close>

fun Number :: "jsval \<Rightarrow> number" where
  "Number JUndefined = NaN"
| "Number JNull = Fin 0"
| "Number (JBool b) = (if b then Fin 1 else Fin 0)"
| "Number (JNum n) = n"
| "Number (JStr s) = StringToNumber s"
| "Number (JObj _) = NaN"
| "Number (JArr []) = Fin 0"
| "Number (JArr [JUndefined]) = Fin 0"
| "Number (JArr [JNull]) = Fin 0"
| "Number (JArr [JBool _]) = NaN"
| "Number (JArr [JNum n]) = n"
| "Number (JArr [JStr s]) = StringToNumber s"
| "Number (JArr [JObj _]) = NaN"
| "Number (JArr [JArr xs]) = Number (JArr xs)"
| "Number (JArr (_ # _ # _)) = NaN"

text \<open>\<^verbatim>\<open>Number.isNaN\<close>.\<close>

definition isNaN :: "number \<Rightarrow> bool" where
  "isNaN n = (n = NaN)"

section \<open>The store\<close>

text \<open>
  A bill as the creation and update handlers store it: \<open>id\<close>, \<open>name\<close> and \<open>notes\<close> are
  strings, \<open>dueDay\<close> and \<open>amount\<close> are numbers (results of \<^verbatim>\<open>Number(...)\<close>). The
  fields \<open>id\<close> and \<open>notes\<close> carry a prime, their plain names being taken.
\<close>

record bill =
  id' :: string
  name :: string
  dueDay :: number
  amount :: number
  notes' :: string

text \<open>A projected bill: \<^verbatim>\<open>{ ...bill, isPaid }\<close>.\<close>

record projected = bill +
  isPaid :: bool

text \<open>
  A push registration: the token and the platform label as the request supplied them.
\<close>

record pushToken =
  token :: jsval
  platform :: jsval

text \<open>
  The store: the bill list in insertion order, the payment marks as a mapping from month
  key to a mapping from bill id to a boolean, and the push registrations. The two objects
  that the server uses as dictionaries are modelled as maps over their own properties: a
  key reads as absent unless it was stored. (On the host a key that names a member that
  every object inherits, such as \<^verbatim>\<open>constructor\<close> or \<^verbatim>\<open>toString\<close>, reads as that member;
  month keys and bill ids are taken not to be such names.)
\<close>

record store =
  bills :: "bill list"
  payments :: "string \<rightharpoonup> (string \<rightharpoonup> bool)"
  pushTokens :: "pushToken list"

text \<open>
  What one request finds outside the store: the clock reading (milliseconds since the
  epoch), the offset of local time from UTC in milliseconds (taken as constant), the
  string that \<^verbatim>\<open>randomUUID()\<close> returns, and whether the write of \<^verbatim>\<open>persist()\<close> succeeds.
\<close>

record env =
  now :: int
  tzOffset :: int
  uuid :: string
  diskOk :: bool

section \<open>Payment projection\<close>

text \<open>
  \<^verbatim>\<open>const paid = store.payments?.[month] || {}\<close>: a missing month reads as the empty
  object.
\<close>

definition marksOf :: "store \<Rightarrow> string \<Rightarrow> (string \<rightharpoonup> bool)" where
  "marksOf s month = (case payments s month of None \<Rightarrow> Map.empty | Some paid \<Rightarrow> paid)"

text \<open>\<^verbatim>\<open>Boolean(paid[bill.id])\<close>: an absent mark is \<open>undefined\<close>, which is falsy.\<close>

definition isMarked :: "(string \<rightharpoonup> bool) \<Rightarrow> string \<Rightarrow> bool" where
  "isMarked paid i = (case paid i of None \<Rightarrow> False | Some b \<Rightarrow> b)"

definition withPaymentStatus :: "store \<Rightarrow> string \<Rightarrow> projected list" where
  "withPaymentStatus s month =
     (let paid = marksOf s month
      in map (\<lambda>b. \<lparr>id' = id' b, name = name b, dueDay = dueDay b,
                     amount = amount b, notes' = notes' b,
                     isPaid = isMarked paid (id' b)\<rparr>) (bills s))"

text \<open>\<^verbatim>\<open>Number(bill.amount || 0)\<close>: a falsy amount (\<open>NaN\<close> or zero) counts as \<open>0\<close>.\<close>

definition amountOrZero :: "'a bill_scheme \<Rightarrow> number" where
  "amountOrZero b = (if truthy_number (amount b) then amount b else Fin 0)"

record totals =
  total :: number
  paid :: number
  remaining :: number

text \<open>The two \<^verbatim>\<open>reduce\<close> calls are left folds from \<open>0\<close>.\<close>

definition totalsOf :: "projected list \<Rightarrow> totals" where
  "totalsOf bs =
     (let total = foldl (\<lambda>sum b. add sum (amountOrZero b)) (Fin 0) bs;
          paid = foldl (\<lambda>sum b. add sum (if isPaid b then amountOrZero b else Fin 0)) (Fin 0) bs
      in \<lparr>total = total, paid = paid, remaining = sub total paid\<rparr>)"

definition totalsForMonth :: "store \<Rightarrow> string \<Rightarrow> totals" where
  "totalsForMonth s month = totalsOf (withPaymentStatus s month)"

section \<open>Calendar arithmetic of \<^verbatim>\<open>Date\<close>\<close>

text \<open>
  The time value of a \<^verbatim>\<open>Date\<close> is a number of milliseconds since the epoch. The
  functions below are those of the language definition: the day number of a time, the
  day number of the first day of a year, the year of a time (the largest year that starts
  at or before it) and the month of a time (0 to 11).
\<close>

definition msPerDay :: int where
  "msPerDay = 86400000"

definition Day :: "int \<Rightarrow> int" where
  "Day t = t div msPerDay"

definition DaysInYear :: "int \<Rightarrow> int" where
  "DaysInYear y =
     (if y mod 4 \<noteq> 0 then 365 else if y mod 100 \<noteq> 0 then 366
      else if y mod 400 \<noteq> 0 then 365 else 366)"

definition DayFromYear :: "int \<Rightarrow> int" where
  "DayFromYear y =
     365 * (y - 1970) + (y - 1969) div 4 - (y - 1901) div 100 + (y - 1601) div 400"

text \<open>The leap days that \<open>DayFromYear\<close> counts from 1970 to the start of year \<open>y\<close>.\<close>

definition leapDays :: "int \<Rightarrow> int" where
  "leapDays y = (y - 1969) div 4 - (y - 1901) div 100 + (y - 1601) div 400"

text \<open>
  The search for the year goes down from a year that starts after day \<open>d\<close>; the fuel
  covers every year that can contain \<open>d\<close>.
\<close>

fun yearDown :: "nat \<Rightarrow> int \<Rightarrow> int \<Rightarrow> int" where
  "yearDown 0 y d = y"
| "yearDown (Suc n) y d = (if DayFromYear y \<le> d then y else yearDown n (y - 1) d)"

definition YearFromTime :: "int \<Rightarrow> int" where
  "YearFromTime t =
     (let d = Day t;
          hi = 1970 + max (d div 365) (d div 366) + 1;
          lo = 1970 + min (d div 365) (d div 366) - 1
      in yearDown (nat (hi - lo)) hi d)"

definition InLeapYear :: "int \<Rightarrow> int" where
  "InLeapYear y = (if DaysInYear y = 366 then 1 else 0)"


definition DayWithinYear :: "int \<Rightarrow> int" where
  "DayWithinYear t = Day t - DayFromYear (YearFromTime t)"

definition MonthFromTime :: "int \<Rightarrow> int" where
  "MonthFromTime t =
     (let dwy = DayWithinYear t; leap = InLeapYear (YearFromTime t)
      in if dwy < 31 then 0
         else if dwy < 59 + leap then 1
         else if dwy < 90 + leap then 2
         else if dwy < 120 + leap then 3
         else if dwy < 151 + leap then 4
         else if dwy < 181 + leap then 5
         else if dwy < 212 + leap then 6
         else if dwy < 243 + leap then 7
         else if dwy < 273 + leap then 8
         else if dwy < 304 + leap then 9
         else if dwy < 334 + leap then 10
         else 11)"

text \<open>Local time is UTC plus the offset of the zone.\<close>

definition LocalTime :: "env \<Rightarrow> int \<Rightarrow> int" where
  "LocalTime e t = t + tzOffset e"


definition getFullYear :: "env \<Rightarrow> int" where
  "getFullYear e = YearFromTime (LocalTime e (now e))"

definition getMonth :: "env \<Rightarrow> int" where
  "getMonth e = MonthFromTime (LocalTime e (now e))"





text \<open>Decimal digits of a natural number and of an integer, as template strings print them.\<close>

fun decimal :: "nat \<Rightarrow> string" where
  "decimal n =
     (if n < 10 then [''0123456789'' ! n]
      else decimal (n div 10) @ [''0123456789'' ! (n mod 10)])"

definition showInt :: "int \<Rightarrow> string" where
  "showInt i = (if i < 0 then CHR ''-'' # decimal (nat (- i)) else decimal (nat i))"

text \<open>\<^verbatim>\<open>s.padStart(2, "0")\<close>.\<close>

definition padStart2 :: "string \<Rightarrow> string" where
  "padStart2 s = replicate (2 - length s) CHR ''0'' @ s"

definition startOfMonthKey :: "env \<Rightarrow> string" where
  "startOfMonthKey e = showInt (getFullYear e) @ ''-'' @ padStart2 (showInt (getMonth e + 1))"

section \<open>Upcoming-bill selection\<close>



section \<open>Responses\<close>

text \<open>
  A response is a status code and the value handed to \<^verbatim>\<open>sendJson\<close> (\<open>JUndefined\<close> for
  the empty 204 answer). A fault that no handler catches (a \<^verbatim>\<open>TypeError\<close>, a failed
  write) reaches the outer \<^verbatim>\<open>catch\<close> of the server, which answers 500.
\<close>

datatype response = Response (statusOf: nat) (payloadOf: jsval)

definition sendJson :: "nat \<Rightarrow> jsval \<Rightarrow> response" where
  "sendJson statusCode payload = Response statusCode payload"

definition errorBody :: "string \<Rightarrow> jsval" where
  "errorBody msg = JObj [(''error'', JStr msg)]"

definition internalError :: response where
  "internalError = sendJson 500 (errorBody ''Internal server error'')"

definition billValue :: "bill \<Rightarrow> jsval" where
  "billValue b =
     JObj [(''id'', JStr (id' b)), (''name'', JStr (name b)), (''dueDay'', JNum (dueDay b)),
           (''amount'', JNum (amount b)), (''notes'', JStr (notes' b))]"

text \<open>\<^verbatim>\<open>await persist()\<close> after a mutation: the answer stands if the write succeeds.\<close>

definition afterPersist :: "env \<Rightarrow> response \<Rightarrow> store \<Rightarrow> response \<times> store" where
  "afterPersist e r s = (if diskOk e then (r, s) else (internalError, s))"

section \<open>Bill creation, update and deletion\<close>

text \<open>
  The body of a creation or update request, field by field. \<open>id\<close>, \<open>dueDay\<close> and
  \<open>amount\<close> are arbitrary values (\<open>JUndefined\<close> when absent); \<open>name\<close> and \<open>notes\<close>, which
  the handlers pass to \<^verbatim>\<open>String(...)\<close>, are a string or absent.
\<close>

record billBody =
  body_id :: jsval
  body_name :: "string option"
  body_dueDay :: jsval
  body_amount :: jsval
  body_notes :: "string option"

text \<open>Truthiness of a text field: absent and the empty string are falsy.\<close>

definition truthyText :: "string option \<Rightarrow> bool" where
  "truthyText x = (case x of None \<Rightarrow> False | Some s \<Rightarrow> s \<noteq> [])"

text \<open>\<^verbatim>\<open>x ? String(x) : ""\<close> and \<^verbatim>\<open>String(x)\<close> of a truthy text field.\<close>

definition textOrEmpty :: "string option \<Rightarrow> string" where
  "textOrEmpty x = (case x of None \<Rightarrow> [] | Some s \<Rightarrow> s)"

text \<open>
  \<^verbatim>\<open>(id || "").trim()\<close>: a falsy id is the empty string, a string is trimmed, and any
  other truthy value has no \<^verbatim>\<open>trim\<close> method, which is a \<^verbatim>\<open>TypeError\<close> (\<open>None\<close>).
\<close>

definition trimmedId :: "jsval \<Rightarrow> string option" where
  "trimmedId i =
     (if \<not> truthy i then Some (trim [])
      else case i of JStr s \<Rightarrow> Some (trim s) | _ \<Rightarrow> None)"

text \<open>\<^verbatim>\<open>store.bills.some((bill) => bill.id === billId)\<close>.\<close>

definition hasBill :: "store \<Rightarrow> string \<Rightarrow> bool" where
  "hasBill s billId = list_ex (\<lambda>b. id' b = billId) (bills s)"

definition conflictMessage :: "string \<Rightarrow> string" where
  "conflictMessage billId =
     ''Bill with id '' @ [CHR 0x22] @ billId @ [CHR 0x22] @ '' already exists''"

text \<open>\<^verbatim>\<open>POST /api/bills\<close>.\<close>

definition createBill :: "env \<Rightarrow> store \<Rightarrow> billBody \<Rightarrow> response \<times> store" where
  "createBill e s body =
     (if \<not> truthyText (body_name body) then
        (sendJson 400 (errorBody ''name is required''), s)
      else if body_dueDay body = JUndefined \<or> isNaN (Number (body_dueDay body)) then
        (sendJson 400 (errorBody ''dueDay must be a number''), s)
      else
        case trimmedId (body_id body) of
          None \<Rightarrow> (internalError, s)
        | Some t \<Rightarrow>
            let billId = (if t \<noteq> [] then t else uuid e)
            in if hasBill s billId then
                 (sendJson 409 (errorBody (conflictMessage billId)), s)
               else
                 let newBill =
                       \<lparr>id' = billId,
                        name = textOrEmpty (body_name body),
                        dueDay = Number (body_dueDay body),
                        amount = Number (if truthy (body_amount body) then body_amount body
                                         else JNum (Fin 0)),
                        notes' = textOrEmpty (body_notes body)\<rparr>
                 in afterPersist e (sendJson 201 (billValue newBill))
                      (s\<lparr>bills := bills s @ [newBill]\<rparr>))"

text \<open>
  \<^verbatim>\<open>PUT /api/bills/:id\<close>: the first bill with the id is changed in place, only in the
  fields that the body supplies.
\<close>

definition applyUpdate :: "billBody \<Rightarrow> bill \<Rightarrow> bill" where
  "applyUpdate body b =
     b\<lparr>name := (case body_name body of None \<Rightarrow> name b | Some n \<Rightarrow> n),
        dueDay := (if body_dueDay body \<noteq> JUndefined then Number (body_dueDay body)
                   else dueDay b),
        amount := (if body_amount body \<noteq> JUndefined then Number (body_amount body)
                   else amount b),
        notes' := (case body_notes body of None \<Rightarrow> notes' b | Some n \<Rightarrow> n)\<rparr>"

fun updateFirst :: "string \<Rightarrow> (bill \<Rightarrow> bill) \<Rightarrow> bill list \<Rightarrow> bill list" where
  "updateFirst billId f [] = []"
| "updateFirst billId f (b # bs) =
     (if id' b = billId then f b # bs else b # updateFirst billId f bs)"

definition updateBill :: "env \<Rightarrow> store \<Rightarrow> string \<Rightarrow> billBody \<Rightarrow> response \<times> store" where
  "updateBill e s billId body =
     (case find (\<lambda>item. id' item = billId) (bills s) of
        None \<Rightarrow> (sendJson 404 (errorBody ''Bill not found''), s)
      | Some b \<Rightarrow>
          afterPersist e (sendJson 200 (billValue (applyUpdate body b)))
            (s\<lparr>bills := updateFirst billId (applyUpdate body) (bills s)\<rparr>))"

text \<open>\<^verbatim>\<open>findIndex\<close>: the position of the first element that satisfies \<open>P\<close>.\<close>

fun findIndex :: "('a \<Rightarrow> bool) \<Rightarrow> 'a list \<Rightarrow> nat option" where
  "findIndex P [] = None"
| "findIndex P (x # xs) =
     (if P x then Some 0 else map_option Suc (findIndex P xs))"

text \<open>\<^verbatim>\<open>xs.splice(index, 1)\<close>.\<close>

definition splice1 :: "nat \<Rightarrow> 'a list \<Rightarrow> 'a list" where
  "splice1 index xs = take index xs @ drop (Suc index) xs"

text \<open>
  The cascade \<^verbatim>\<open>for (const month of Object.keys(store.payments)) delete
  store.payments[month][billId]\<close>: every month key keeps its entry, without the id.
\<close>

definition unmarkAll :: "string \<Rightarrow> (string \<rightharpoonup> (string \<rightharpoonup> bool)) \<Rightarrow> (string \<rightharpoonup> (string \<rightharpoonup> bool))" where
  "unmarkAll billId ps = (\<lambda>month. map_option (\<lambda>marks. marks(billId := None)) (ps month))"

text \<open>\<^verbatim>\<open>DELETE /api/bills/:id\<close>.\<close>

definition deleteBill :: "env \<Rightarrow> store \<Rightarrow> string \<Rightarrow> response \<times> store" where
  "deleteBill e s billId =
     (case findIndex (\<lambda>item. id' item = billId) (bills s) of
        None \<Rightarrow> (sendJson 404 (errorBody ''Bill not found''), s)
      | Some index \<Rightarrow>
          afterPersist e (Response 204 JUndefined)
            (s\<lparr>bills := splice1 index (bills s),
               payments := unmarkAll billId (payments s)\<rparr>))"

section \<open>Payment marks\<close>

text \<open>
  The body of a paid-toggle request: \<open>isPaid\<close> is an arbitrary value, \<open>month\<close>, which
  becomes a key of the payments mapping, is a string or absent.
\<close>

record paidBody =
  body_isPaid :: jsval
  body_month :: "string option"

text \<open>\<^verbatim>\<open>body?.month || startOfMonthKey()\<close>.\<close>

definition monthOrCurrent :: "env \<Rightarrow> string option \<Rightarrow> string" where
  "monthOrCurrent e m = (if truthyText m then textOrEmpty m else startOfMonthKey e)"

text \<open>\<^verbatim>\<open>POST /api/bills/:id/paid\<close>.\<close>

definition setPaid :: "env \<Rightarrow> store \<Rightarrow> string \<Rightarrow> paidBody \<Rightarrow> response \<times> store" where
  "setPaid e s billId body =
     (if \<not> hasBill s billId then (sendJson 404 (errorBody ''Bill not found''), s)
      else
        let monthKey = monthOrCurrent e (body_month body);
            ps = (if payments s monthKey = None then (payments s)(monthKey \<mapsto> Map.empty)
                  else payments s);
            marks = (case ps monthKey of None \<Rightarrow> Map.empty | Some m \<Rightarrow> m);
            marks' = (if truthy (body_isPaid body) then marks(billId \<mapsto> True)
                      else marks(billId := None))
        in afterPersist e
             (sendJson 200
                (JObj [(''id'', JStr billId), (''month'', JStr monthKey),
                       (''isPaid'', JBool (isMarked marks' billId))]))
             (s\<lparr>payments := ps(monthKey \<mapsto> marks')\<rparr>))"

section \<open>Push registrations\<close>

record pushBody =
  body_token :: jsval
  body_platform :: jsval

text \<open>
  \<^verbatim>\<open>entry.token === token\<close>: values of primitive types are equal when they are the same
  value (\<open>NaN\<close> excepted); the token of a request is freshly parsed, so an array or an
  object is never identical to a stored one.
\<close>

fun strictEq :: "jsval \<Rightarrow> jsval \<Rightarrow> bool" where
  "strictEq JUndefined JUndefined = True"
| "strictEq JNull JNull = True"
| "strictEq (JBool a) (JBool b) = (a = b)"
| "strictEq (JNum a) (JNum b) = (a = b \<and> a \<noteq> NaN)"
| "strictEq (JStr a) (JStr b) = (a = b)"
| "strictEq _ _ = False"

text \<open>\<^verbatim>\<open>POST /api/push/register\<close>.\<close>

definition registerPush :: "env \<Rightarrow> store \<Rightarrow> pushBody \<Rightarrow> response \<times> store" where
  "registerPush e s body =
     (let tok = body_token body
      in if \<not> truthy tok then (sendJson 400 (errorBody ''token is required''), s)
         else
           let ok = sendJson 200 (JObj [(''ok'', JBool True), (''token'', tok)])
           in case find (\<lambda>entry. strictEq (token entry) tok) (pushTokens s) of
                Some exists \<Rightarrow> (ok, s)
              | None \<Rightarrow>
                  afterPersist e ok
                    (s\<lparr>pushTokens := pushTokens s @
                         [\<lparr>token = tok,
                           platform = (if truthy (body_platform body) then body_platform body
                                       else JStr ''unknown'')\<rparr>]\<rparr>))"

text \<open>\<^verbatim>\<open>POST /api/push/unregister\<close>.\<close>

definition unregisterPush :: "env \<Rightarrow> store \<Rightarrow> pushBody \<Rightarrow> response \<times> store" where
  "unregisterPush e s body =
     (let tok = body_token body
      in if \<not> truthy tok then (sendJson 400 (errorBody ''token is required''), s)
         else
           afterPersist e (sendJson 200 (JObj [(''ok'', JBool True)]))
             (s\<lparr>pushTokens := filter (\<lambda>entry. \<not> strictEq (token entry) tok) (pushTokens s)\<rparr>))"

section \<open>Loading the store\<close>

text \<open>
  The state file and its directory. Reading a missing file fails with code \<open>ENOENT\<close>,
  reading may also fail with another code; \<^verbatim>\<open>mkdir\<close> and \<^verbatim>\<open>writeFile\<close> succeed unless
  the disk has a write fault.
\<close>

datatype fileState = Missing | Unreadable string | Content string

record disk =
  dirExists :: bool
  storeFile :: fileState
  writeFault :: "string option"

text \<open>
  The faults of loading: a file-system error carries a code, the \<^verbatim>\<open>SyntaxError\<close> of
  \<^verbatim>\<open>JSON.parse\<close> carries none.
\<close>

datatype fault = SystemError string | SyntaxError

definition errorCode :: "fault \<Rightarrow> string option" where
  "errorCode err = (case err of SystemError c \<Rightarrow> Some c | SyntaxError \<Rightarrow> None)"

definition mkdir :: "disk \<Rightarrow> fault + disk" where
  "mkdir d = (case writeFault d of Some c \<Rightarrow> Inl (SystemError c)
              | None \<Rightarrow> Inr (d\<lparr>dirExists := True\<rparr>))"

definition readFile :: "disk \<Rightarrow> fault + string" where
  "readFile d =
     (case storeFile d of
        Missing \<Rightarrow> Inl (SystemError ''ENOENT'')
      | Unreadable c \<Rightarrow> Inl (SystemError c)
      | Content raw \<Rightarrow> Inr raw)"

definition writeFile :: "disk \<Rightarrow> string \<Rightarrow> fault + disk" where
  "writeFile d text' = (case writeFault d of Some c \<Rightarrow> Inl (SystemError c)
                        | None \<Rightarrow> Inr (d\<lparr>storeFile := Content text'\<rparr>))"

text \<open>The seed document \<^verbatim>\<open>{ bills: [], payments: {}, pushTokens: [] }\<close>.\<close>

definition seed :: jsval where
  "seed = JObj [(''bills'', JArr []), (''payments'', JObj []), (''pushTokens'', JArr [])]"

text \<open>
  \<^verbatim>\<open>ensureStoreFile\<close>. \<^verbatim>\<open>JSON.parse\<close> and \<^verbatim>\<open>JSON.stringify\<close> are those of the host, taken
  as parameters: \<open>parse raw\<close> is \<open>None\<close> when the text is no JSON document. The result is
  the fault that propagates, or the document with which the server starts and the disk
  as it is left.
\<close>

definition ensureStoreFile ::
  "(string \<Rightarrow> jsval option) \<Rightarrow> (jsval \<Rightarrow> string) \<Rightarrow> disk \<Rightarrow> fault + (jsval \<times> disk)" where
  "ensureStoreFile parse stringify d =
     (case (if \<not> dirExists d then mkdir d else Inr d) of
        Inl err \<Rightarrow> Inl err
      | Inr d1 \<Rightarrow>
          (case (case readFile d1 of
                   Inl err \<Rightarrow> Inl err
                 | Inr raw \<Rightarrow> (case parse raw of None \<Rightarrow> Inl SyntaxError
                               | Some doc \<Rightarrow> Inr doc)) of
             Inr doc \<Rightarrow> Inr (doc, d1)
           | Inl error \<Rightarrow>
               if errorCode error \<noteq> Some ''ENOENT'' then Inl error
               else (case writeFile d1 (stringify seed) of
                       Inl err \<Rightarrow> Inl err
                     | Inr d2 \<Rightarrow> Inr (seed, d2))))"

text \<open>The store that the seed document denotes.\<close>

definition emptyStore :: store where
  "emptyStore = \<lparr>bills = [], payments = Map.empty, pushTokens = []\<rparr>"

section \<open>The selection rule in the words of the specification\<close>



text \<open>
  The clock readings considered: the local year has more than two digits (a year from 0
  to 99 would count from 1900 in the date constructor), and the reading is a date at
  least a week inside the range of \<^verbatim>\<open>Date\<close>.
\<close>

definition validClock :: "env \<Rightarrow> bool" where
  "validClock e =
     (\<not> (0 \<le> getFullYear e \<and> getFullYear e \<le> 99)
      \<and> \<bar>now e\<bar> + 7 * msPerDay \<le> 8640000000000000)"

section \<open>Named parts of the handlers\<close>

text \<open>
  The conditions and values that the handlers compute on their way, under names of their
  own: the two validation checks of bill creation, the id that creation settles on
  (\<open>None\<close> when \<^verbatim>\<open>trim\<close> raises), the bill it builds, the marks of a month after a
  toggle, the answer and the entry of a registration.
\<close>

definition passesValidation :: "billBody \<Rightarrow> bool" where
  "passesValidation body =
     (truthyText (body_name body) \<and> body_dueDay body \<noteq> JUndefined
      \<and> \<not> isNaN (Number (body_dueDay body)))"

definition billIdOf :: "env \<Rightarrow> billBody \<Rightarrow> string option" where
  "billIdOf e body =
     map_option (\<lambda>t. if t \<noteq> [] then t else uuid e) (trimmedId (body_id body))"

definition newBillOf :: "env \<Rightarrow> billBody \<Rightarrow> string \<Rightarrow> bill" where
  "newBillOf e body billId =
     \<lparr>id' = billId,
      name = textOrEmpty (body_name body),
      dueDay = Number (body_dueDay body),
      amount = Number (if truthy (body_amount body) then body_amount body else JNum (Fin 0)),
      notes' = textOrEmpty (body_notes body)\<rparr>"

definition toggled :: "store \<Rightarrow> string \<Rightarrow> string \<Rightarrow> jsval \<Rightarrow> (string \<rightharpoonup> bool)" where
  "toggled s monthKey billId flag =
     (if truthy flag then (marksOf s monthKey)(billId \<mapsto> True)
      else (marksOf s monthKey)(billId := None))"

definition okReply :: "jsval \<Rightarrow> response" where
  "okReply tok = sendJson 200 (JObj [(''ok'', JBool True), (''token'', tok)])"

definition newEntry :: "pushBody \<Rightarrow> pushToken" where
  "newEntry body =
     \<lparr>token = body_token body,
      platform = (if truthy (body_platform body) then body_platform body else JStr ''unknown'')\<rparr>"

section \<open>The server as a state machine\<close>

text \<open>The requests that change the store, and their dispatch.\<close>

datatype request =
    CreateBill billBody
  | UpdateBill string billBody
  | DeleteBill string
  | SetPaid string paidBody
  | RegisterPush pushBody
  | UnregisterPush pushBody

fun handle :: "env \<Rightarrow> store \<Rightarrow> request \<Rightarrow> response \<times> store" where
  "handle e s (CreateBill body) = createBill e s body"
| "handle e s (UpdateBill billId body) = updateBill e s billId body"
| "handle e s (DeleteBill billId) = deleteBill e s billId"
| "handle e s (SetPaid billId body) = setPaid e s billId body"
| "handle e s (RegisterPush body) = registerPush e s body"
| "handle e s (UnregisterPush body) = unregisterPush e s body"

text \<open>
  What \<^verbatim>\<open>randomUUID()\<close> returns: 36 characters, hexadecimal digits in groups of 8, 4, 4,
  4 and 12 with hyphens between them.
\<close>

definition shape :: "char \<Rightarrow> char" where
  "shape c = (if c = CHR ''-'' then CHR ''-'' else if isDigitOf 16 c then CHR ''x'' else CHR ''?'')"

definition isUUID :: "string \<Rightarrow> bool" where
  "isUUID u = (map shape u = ''xxxxxxxx-xxxx-xxxx-xxxx-xxxxxxxxxxxx'')"

text \<open>
  The stores that the server can reach from the seed, one request after the other, each
  with a clock reading, a UUID and a disk of its own.
\<close>

inductive reachable :: "store \<Rightarrow> bool" where
  init: "reachable emptyStore"
| step: "reachable s \<Longrightarrow> isUUID (uuid e) \<Longrightarrow> reachable (snd (handle e s req))"

section \<open>Invariants of the store\<close>



text \<open>
  A literal token is a truthy value of a primitive type (a string, a number, a boolean),
  which \<^verbatim>\<open>===\<close> compares by value.
\<close>

definition isLiteral :: "jsval \<Rightarrow> bool" where
  "isLiteral v = (truthy v \<and> (case v of JArr _ \<Rightarrow> False | JObj _ \<Rightarrow> False | _ \<Rightarrow> True))"

definition literalTokens :: "store \<Rightarrow> jsval list" where
  "literalTokens s = filter isLiteral (map token (pushTokens s))"

definition tokensTruthy :: "store \<Rightarrow> bool" where
  "tokensTruthy s = list_all (\<lambda>entry. truthy (token entry)) (pushTokens s)"

text \<open>Every payment mark belongs to a bill of the store.\<close>

definition marksAreForBills :: "store \<Rightarrow> bool" where
  "marksAreForBills s =
     (\<forall>month marks i. payments s month = Some marks \<and> marks i \<noteq> None \<longrightarrow> hasBill s i)"

section \<open>Example states\<close>

text \<open>
  A clock reading of 10 May 2024, 17:00 local time, four hours behind UTC, and a store
  with two bills, marks in two months and one registration.
\<close>

definition e0 :: env where
  "e0 = \<lparr>now = 1715374800000, tzOffset = - 14400000,
          uuid = ''3f0e8a52-7c1d-4b9e-9a6f-2d5c1e7b8a90'', diskOk = True\<rparr>"

definition rent :: bill where
  "rent = \<lparr>id' = ''rent'', name = ''Rent'', dueDay = Fin 1, amount = Fin 1200, notes' = []\<rparr>"

definition gym :: bill where
  "gym = \<lparr>id' = ''gym'', name = ''Gym'', dueDay = Fin 15, amount = Fin 40, notes' = []\<rparr>"

definition s0 :: store where
  "s0 = \<lparr>bills = [rent, gym],
          payments = [''2024-04'' \<mapsto> [''rent'' \<mapsto> True, ''gym'' \<mapsto> True],
                      ''2024-05'' \<mapsto> [''gym'' \<mapsto> True]],
          pushTokens = [\<lparr>token = JStr ''ExponentPushToken[abc]'', platform = JStr ''ios''\<rparr>]\<rparr>"






definition waterBody :: billBody where
  "waterBody = \<lparr>body_id = JStr ''  '', body_name = Some ''Water'',
                body_dueDay = JNum (Fin 20), body_amount = JStr ''abc'', body_notes = None\<rparr>"

definition water :: bill where
  "water = \<lparr>id' = ''3f0e8a52-7c1d-4b9e-9a6f-2d5c1e7b8a90'', name = ''Water'', dueDay = Fin 20,
            amount = NaN, notes' = []\<rparr>"




definition again :: pushBody where
  "again = \<lparr>body_token = JStr ''ExponentPushToken[abc]'', body_platform = JStr ''android''\<rparr>"

text \<open>
  The text of the seed document as the host prints it with an indentation of two, a host
  parser and printer that know this one text, and two disks: one without the state file
  and one whose file breaks off after twelve characters.
\<close>

definition missingDisk :: disk where
  "missingDisk = \<lparr>dirExists = False, storeFile = Missing, writeFault = None\<rparr>"

definition quoted :: "string \<Rightarrow> string" where
  "quoted s = CHR 0x22 # s @ [CHR 0x22]"

definition seedText :: string where
  "seedText =
     concat [''{'', [CHR 0x0A],
             ''  '', quoted ''bills'', '': [],'', [CHR 0x0A],
             ''  '', quoted ''payments'', '': {},'', [CHR 0x0A],
             ''  '', quoted ''pushTokens'', '': []'', [CHR 0x0A],
             ''}'']"

definition corruptDisk :: disk where
  "corruptDisk = \<lparr>dirExists = True, storeFile = Content (take 12 seedText), writeFault = None\<rparr>"

definition parseSeedOnly :: "string \<Rightarrow> jsval option" where
  "parseSeedOnly raw = (if raw = seedText then Some seed else None)"

definition printSeedOnly :: "jsval \<Rightarrow> string" where
  "printSeedOnly doc = (if doc = seed then seedText else ''null'')"

section \<open>Totals\<close>

lemma le_add_mono:
  assumes "le (Fin 0) p" "le p t" "le (Fin 0) y" "x = y \<or> x = Fin 0"
  shows "le (Fin 0) (add p x) \<and> le (add p x) (add t y)"
  using assms by (cases p; cases t; cases y; cases x) auto

lemma amountOrZero_nonneg:
  "ge (amount b) (Fin 0) \<Longrightarrow> le (Fin 0) (amountOrZero b)"
  by (cases "amount b") (auto simp: amountOrZero_def ge_def)

lemma foldl_paid_le_total:
  assumes "le (Fin 0) p" "le p t" "\<forall>b \<in> set bs. ge (amount b) (Fin 0)"
  shows "le (foldl (\<lambda>sum b. add sum (if isPaid b then amountOrZero b else Fin 0)) p bs)
            (foldl (\<lambda>sum b. add sum (amountOrZero b)) t bs)"
  using assms
proof (induction bs arbitrary: p t)
  case Nil
  then show ?case by simp
next
  case (Cons b bs)
  have nn: "le (Fin 0) (amountOrZero b)"
    using Cons.prems(3) by (simp add: amountOrZero_nonneg)
  have step: "le (Fin 0) (add p (if isPaid b then amountOrZero b else Fin 0))
      \<and> le (add p (if isPaid b then amountOrZero b else Fin 0)) (add t (amountOrZero b))"
    by (rule le_add_mono [OF Cons.prems(1) Cons.prems(2) nn]) simp
  show ?case
    using Cons.IH [of "add p (if isPaid b then amountOrZero b else Fin 0)"
        "add t (amountOrZero b)"] step Cons.prems(3)
    by simp
qed

lemma amount_withPaymentStatus:
  "p \<in> set (withPaymentStatus s month) \<Longrightarrow> \<exists>b \<in> set (bills s). amount p = amount b"
  by (auto simp: withPaymentStatus_def Let_def)

text \<open>
  Claim C4. For every store and month key the totals satisfy
  \<open>remaining = total - paid\<close>, and when every bill's amount is non-negative,
  \<open>paid <= total\<close>.
\<close>

theorem totals_remaining_and_paid_le_total:
  "remaining (totalsForMonth s month)
     = sub (total (totalsForMonth s month)) (paid (totalsForMonth s month))
   \<and> ((\<forall>b \<in> set (bills s). ge (amount b) (Fin 0))
        \<longrightarrow> le (paid (totalsForMonth s month)) (total (totalsForMonth s month)))"
proof (intro conjI impI)
  show "remaining (totalsForMonth s month)
     = sub (total (totalsForMonth s month)) (paid (totalsForMonth s month))"
    by (simp add: totalsForMonth_def totalsOf_def Let_def)
next
  assume nonneg: "\<forall>b \<in> set (bills s). ge (amount b) (Fin 0)"
  have "\<forall>p \<in> set (withPaymentStatus s month). ge (amount p) (Fin 0)"
    using nonneg amount_withPaymentStatus by metis
  then have "le (foldl (\<lambda>sum b. add sum (if isPaid b then amountOrZero b else Fin 0)) (Fin 0)
                  (withPaymentStatus s month))
               (foldl (\<lambda>sum b. add sum (amountOrZero b)) (Fin 0) (withPaymentStatus s month))"
    by (intro foldl_paid_le_total) simp_all
  then show "le (paid (totalsForMonth s month)) (total (totalsForMonth s month))"
    by (simp add: totalsForMonth_def totalsOf_def Let_def)
qed

lemma totals_s0:
  "totalsForMonth s0 ''2024-05'' = \<lparr>total = Fin 1240, paid = Fin 40, remaining = Fin 1200\<rparr>"
  by (simp add: s0_def rent_def gym_def totalsForMonth_def totalsOf_def withPaymentStatus_def
      marksOf_def isMarked_def amountOrZero_def sub_def)

theorem totals_remaining_and_paid_le_total_witness:
  "list_all (\<lambda>b. ge (amount b) (Fin 0)) (bills s0)
   \<and> total (totalsForMonth s0 ''2024-05'') = Fin 1240
   \<and> paid (totalsForMonth s0 ''2024-05'') = Fin 40
   \<and> remaining (totalsForMonth s0 ''2024-05'') = sub (Fin 1240) (Fin 40)
   \<and> le (paid (totalsForMonth s0 ''2024-05'')) (total (totalsForMonth s0 ''2024-05''))"
proof -
  have nonneg: "\<forall>b \<in> set (bills s0). ge (amount b) (Fin 0)"
    by (simp add: s0_def rent_def gym_def ge_def)
  note main = totals_remaining_and_paid_le_total [of s0 "''2024-05''"]
  have le: "le (paid (totalsForMonth s0 ''2024-05'')) (total (totalsForMonth s0 ''2024-05''))"
    using main nonneg by blast
  have rem: "remaining (totalsForMonth s0 ''2024-05'')
      = sub (total (totalsForMonth s0 ''2024-05'')) (paid (totalsForMonth s0 ''2024-05''))"
    using main by blast
  have t: "total (totalsForMonth s0 ''2024-05'') = Fin 1240"
    and p: "paid (totalsForMonth s0 ''2024-05'') = Fin 40"
    by (simp_all add: totals_s0)
  show ?thesis
    using nonneg le rem t p by (simp add: list_all_iff)
qed

section \<open>The year of a time value\<close>

text \<open>
  The search of \<open>YearFromTime\<close> finds the year that the language definition asks for: the
  largest year whose first day is not after the day of the time value.
\<close>

lemma DayFromYear_leapDays: "DayFromYear y = 365 * (y - 1970) + leapDays y"
  by (simp add: DayFromYear_def leapDays_def)

lemma div_bounds:
  fixes x k :: int
  assumes "0 < k"
  shows "k * (x div k) \<le> x \<and> x \<le> k * (x div k) + (k - 1)"
proof -
  have "x = k * (x div k) + x mod k" by simp
  moreover have "0 \<le> x mod k" "x mod k < k" using assms by simp_all
  ultimately show ?thesis by linarith
qed

lemma leap_terms:
  fixes y :: int
  obtains a b c where "leapDays y = a - b + c"
    and "4 * a \<le> y - 1969" "y - 1969 \<le> 4 * a + 3"
    and "100 * b \<le> y - 1901" "y - 1901 \<le> 100 * b + 99"
    and "400 * c \<le> y - 1601" "y - 1601 \<le> 400 * c + 399"
proof
  show "leapDays y = (y - 1969) div 4 - (y - 1901) div 100 + (y - 1601) div 400"
    by (simp add: leapDays_def)
  show "4 * ((y - 1969) div 4) \<le> y - 1969" "y - 1969 \<le> 4 * ((y - 1969) div 4) + 3"
    using div_bounds [of 4 "y - 1969"] by simp_all
  show "100 * ((y - 1901) div 100) \<le> y - 1901" "y - 1901 \<le> 100 * ((y - 1901) div 100) + 99"
    using div_bounds [of 100 "y - 1901"] by simp_all
  show "400 * ((y - 1601) div 400) \<le> y - 1601" "y - 1601 \<le> 400 * ((y - 1601) div 400) + 399"
    using div_bounds [of 400 "y - 1601"] by simp_all
qed

lemma leapDays_lower_nonneg: "1970 \<le> y \<Longrightarrow> - 1 \<le> leapDays y"
  by (rule leap_terms [of y]) linarith

lemma leapDays_lower_neg: "y \<le> 1971 \<Longrightarrow> y - 1972 \<le> leapDays y"
  by (rule leap_terms [of y]) linarith

lemma leapDays_upper_nonneg: "1969 \<le> y \<Longrightarrow> leapDays y \<le> y - 1604"
  by (rule leap_terms [of y]) linarith

lemma leapDays_upper_neg: "y \<le> 1968 \<Longrightarrow> leapDays y \<le> 0"
  by (rule leap_terms [of y]) linarith

lemma leapDays_step: "leapDays y \<le> leapDays (y + 1) + 3"
  by (rule leap_terms [of y], rule leap_terms [of "y + 1"]) linarith

lemma DayFromYear_step: "DayFromYear y < DayFromYear (y + 1)"
  using leapDays_step [of y] by (simp add: DayFromYear_leapDays)

lemma DayFromYear_mono: "y \<le> z \<Longrightarrow> DayFromYear y \<le> DayFromYear z"
proof (induction "nat (z - y)" arbitrary: z)
  case 0
  then show ?case by simp
next
  case (Suc n)
  then have "n = nat (z - 1 - y)" "y \<le> z - 1" by linarith+
  then have "DayFromYear y \<le> DayFromYear (z - 1)" using Suc.hyps(1) by blast
  then show ?case using DayFromYear_step [of "z - 1"] by simp
qed

lemma yearDown_spec:
  assumes "lo \<le> y" "nat (y - lo) \<le> n" "DayFromYear lo \<le> d" "d < DayFromYear (y + 1)"
  shows "DayFromYear (yearDown n y d) \<le> d \<and> d < DayFromYear (yearDown n y d + 1)"
  using assms
proof (induction n arbitrary: y)
  case 0
  then have "y = lo" by simp
  then show ?case using 0 by simp
next
  case (Suc n)
  show ?case
  proof (cases "DayFromYear y \<le> d")
    case True
    then show ?thesis using Suc.prems by simp
  next
    case False
    then have "y \<noteq> lo" using Suc.prems(3) by auto
    then have "lo \<le> y - 1" "nat (y - 1 - lo) \<le> n" using Suc.prems by linarith+
    moreover have "d < DayFromYear (y - 1 + 1)" using False by simp
    ultimately have "DayFromYear (yearDown n (y - 1) d) \<le> d
        \<and> d < DayFromYear (yearDown n (y - 1) d + 1)"
      using Suc.IH [of "y - 1"] Suc.prems(3) by blast
    then show ?thesis using False by simp
  qed
qed

lemma div_365_366:
  fixes d :: int
  shows "365 * (d div 365) \<le> d \<and> d < 365 * (d div 365) + 365
       \<and> 366 * (d div 366) \<le> d \<and> d < 366 * (d div 366) + 366"
  using div_bounds [of 365 d] div_bounds [of 366 d] by simp

lemma search_bounds:
  fixes d :: int
  defines "hi \<equiv> 1970 + max (d div 365) (d div 366) + 1"
      and "lo \<equiv> 1970 + min (d div 365) (d div 366) - 1"
  shows "lo \<le> hi" "DayFromYear lo \<le> d" "d < DayFromYear (hi + 1)"
proof -
  show "lo \<le> hi" by (simp add: hi_def lo_def)
  show "DayFromYear lo \<le> d"
  proof (cases "0 \<le> d")
    case True
    then have "0 \<le> d div 366" "d div 366 \<le> d div 365"
      using div_365_366 [of d] by linarith+
    then have lo: "lo = 1970 + d div 366 - 1" "1969 \<le> lo" by (simp_all add: lo_def)
    show ?thesis
      using leapDays_upper_nonneg [OF lo(2)] div_365_366 [of d] lo(1)
      by (simp add: DayFromYear_leapDays)
  next
    case False
    then have "d div 365 < 0" "d div 365 \<le> d div 366"
      using div_365_366 [of d] by linarith+
    then have lo: "lo = 1970 + d div 365 - 1" "lo \<le> 1968" by (simp_all add: lo_def)
    show ?thesis
      using leapDays_upper_neg [OF lo(2)] div_365_366 [of d] lo(1)
      by (simp add: DayFromYear_leapDays)
  qed
  show "d < DayFromYear (hi + 1)"
  proof (cases "0 \<le> d")
    case True
    then have "0 \<le> d div 366" "d div 366 \<le> d div 365"
      using div_365_366 [of d] by linarith+
    then have hi: "hi = 1970 + d div 365 + 1" "1970 \<le> hi + 1" by (simp_all add: hi_def)
    show ?thesis
      using leapDays_lower_nonneg [OF hi(2)] div_365_366 [of d] hi(1)
      by (simp add: DayFromYear_leapDays)
  next
    case False
    then have "d div 366 < 0" "d div 365 \<le> d div 366"
      using div_365_366 [of d] by linarith+
    then have hi: "hi = 1970 + d div 366 + 1" "hi + 1 \<le> 1971" by (simp_all add: hi_def)
    show ?thesis
      using leapDays_lower_neg [OF hi(2)] div_365_366 [of d] hi(1)
      by (simp add: DayFromYear_leapDays)
  qed
qed

lemma YearFromTime_spec:
  "DayFromYear (YearFromTime t) \<le> Day t \<and> Day t < DayFromYear (YearFromTime t + 1)"
proof -
  define d where "d = Day t"
  define hi where "hi = 1970 + max (d div 365) (d div 366) + 1"
  define lo where "lo = 1970 + min (d div 365) (d div 366) - 1"
  have b: "lo \<le> hi" "DayFromYear lo \<le> d" "d < DayFromYear (hi + 1)"
    using search_bounds [of d] by (simp_all only: hi_def lo_def)
  have "DayFromYear (yearDown (nat (hi - lo)) hi d) \<le> d
      \<and> d < DayFromYear (yearDown (nat (hi - lo)) hi d + 1)"
    using b by (intro yearDown_spec [where lo = lo]) simp_all
  moreover have "YearFromTime t = yearDown (nat (hi - lo)) hi d"
    by (simp only: YearFromTime_def Let_def d_def hi_def lo_def)
  ultimately show ?thesis by (simp only: d_def)
qed

lemma YearFromTime_largest:
  assumes "DayFromYear y \<le> Day t"
  shows "y \<le> YearFromTime t"
proof (rule ccontr)
  assume "\<not> y \<le> YearFromTime t"
  then have "YearFromTime t + 1 \<le> y" by simp
  then have "DayFromYear (YearFromTime t + 1) \<le> DayFromYear y" by (rule DayFromYear_mono)
  then show False using assms YearFromTime_spec [of t] by linarith
qed

lemma validClock_present:
  assumes "0 \<le> now e" "0 \<le> now e + tzOffset e"
    "now e + 7 * msPerDay \<le> 8640000000000000"
  shows "validClock e"
proof -
  have "0 \<le> Day (LocalTime e (now e))"
    using assms(2) by (simp add: Day_def LocalTime_def msPerDay_def)
  then have "DayFromYear 1970 \<le> Day (LocalTime e (now e))"
    by (simp add: DayFromYear_def)
  then have "1970 \<le> getFullYear e"
    unfolding getFullYear_def by (rule YearFromTime_largest)
  then show ?thesis
    using assms by (simp add: validClock_def msPerDay_def)
qed

section \<open>Upcoming-bill selection agrees with the specified rule\<close>











section \<open>The handlers in closed form\<close>


lemma findIndex_Some:
  "findIndex P xs = Some i \<Longrightarrow> i < length xs \<and> P (xs ! i)"
  by (induction xs arbitrary: i) (auto split: if_splits)


lemma hasBill_ids: "hasBill s i = (i \<in> set (map id' (bills s)))"
  by (auto simp: hasBill_def list_ex_iff)

lemma set_splice1:
  assumes "i < length xs"
  shows "set xs \<subseteq> insert (xs ! i) (set (splice1 i xs))"
proof -
  have "set xs = set (take i xs @ xs ! i # drop (Suc i) xs)"
    using assms by (simp only: id_take_nth_drop [symmetric])
  then show ?thesis by (auto simp: splice1_def)
qed

lemma set_splice1_subset: "set (splice1 i xs) \<subseteq> set xs"
  by (auto simp: splice1_def dest: in_set_takeD in_set_dropD)

lemma createBill_cases:
  "createBill e s body =
     (if \<not> truthyText (body_name body) then
        (sendJson 400 (errorBody ''name is required''), s)
      else if body_dueDay body = JUndefined \<or> isNaN (Number (body_dueDay body)) then
        (sendJson 400 (errorBody ''dueDay must be a number''), s)
      else case billIdOf e body of
          None \<Rightarrow> (internalError, s)
        | Some billId \<Rightarrow>
            if hasBill s billId then (sendJson 409 (errorBody (conflictMessage billId)), s)
            else afterPersist e (sendJson 201 (billValue (newBillOf e body billId)))
                   (s\<lparr>bills := bills s @ [newBillOf e body billId]\<rparr>))"
  by (simp add: createBill_def billIdOf_def newBillOf_def Let_def split: option.splits)

lemma createBill_store:
  "snd (createBill e s body) = s
   \<or> (\<exists>billId. passesValidation body \<and> billIdOf e body = Some billId \<and> \<not> hasBill s billId
        \<and> snd (createBill e s body) = s\<lparr>bills := bills s @ [newBillOf e body billId]\<rparr>)"
  by (auto simp: createBill_cases passesValidation_def afterPersist_def split: option.splits)

lemma createBill_fields:
  "payments (snd (createBill e s body)) = payments s
   \<and> pushTokens (snd (createBill e s body)) = pushTokens s"
  using createBill_store [of e s body] by auto


lemma map_id_updateFirst:
  "(\<And>b. id' (f b) = id' b) \<Longrightarrow> map id' (updateFirst billId f bs) = map id' bs"
  by (induction bs) auto

lemma id_applyUpdate: "id' (applyUpdate body b) = id' b"
  by (simp add: applyUpdate_def)

lemma updateBill_store:
  "payments (snd (updateBill e s billId body)) = payments s
   \<and> pushTokens (snd (updateBill e s billId body)) = pushTokens s
   \<and> map id' (bills (snd (updateBill e s billId body))) = map id' (bills s)"
  by (simp add: updateBill_def afterPersist_def map_id_updateFirst id_applyUpdate
      split: option.splits)

lemma deleteBill_store:
  assumes "findIndex (\<lambda>item. id' item = billId) (bills s) = Some i"
  shows "snd (deleteBill e s billId)
           = s\<lparr>bills := splice1 i (bills s), payments := unmarkAll billId (payments s)\<rparr>"
  using assms by (simp add: deleteBill_def afterPersist_def)

lemma deleteBill_unknown:
  "findIndex (\<lambda>item. id' item = billId) (bills s) = None \<Longrightarrow> snd (deleteBill e s billId) = s"
  by (simp add: deleteBill_def)

lemma deleteBill_fields:
  "pushTokens (snd (deleteBill e s billId)) = pushTokens s
   \<and> set (bills (snd (deleteBill e s billId))) \<subseteq> set (bills s)"
proof (cases "findIndex (\<lambda>item. id' item = billId) (bills s)")
  case None
  then show ?thesis by (simp add: deleteBill_unknown)
next
  case (Some i)
  then show ?thesis
    using set_splice1_subset [of i "bills s"] by (simp add: deleteBill_store)
qed

lemma setPaid_cases:
  "setPaid e s billId body =
     (if \<not> hasBill s billId then (sendJson 404 (errorBody ''Bill not found''), s)
      else afterPersist e
             (sendJson 200
                (JObj [(''id'', JStr billId),
                       (''month'', JStr (monthOrCurrent e (body_month body))),
                       (''isPaid'', JBool (truthy (body_isPaid body)))]))
             (s\<lparr>payments := (payments s)(monthOrCurrent e (body_month body) \<mapsto>
                   toggled s (monthOrCurrent e (body_month body)) billId (body_isPaid body))\<rparr>))"
  by (simp add: setPaid_def Let_def toggled_def marksOf_def isMarked_def split: option.splits)

lemma setPaid_store:
  "hasBill s billId \<Longrightarrow>
   snd (setPaid e s billId body)
     = s\<lparr>payments := (payments s)(monthOrCurrent e (body_month body) \<mapsto>
           toggled s (monthOrCurrent e (body_month body)) billId (body_isPaid body))\<rparr>"
  by (simp add: setPaid_cases afterPersist_def)

lemma setPaid_unknown: "\<not> hasBill s billId \<Longrightarrow> snd (setPaid e s billId body) = s"
  by (simp add: setPaid_cases)

lemma setPaid_fields:
  "bills (snd (setPaid e s billId body)) = bills s
   \<and> pushTokens (snd (setPaid e s billId body)) = pushTokens s"
  by (cases "hasBill s billId") (simp_all add: setPaid_store setPaid_unknown)


lemma find_None_iff': "(find P xs = None) = (\<forall>x \<in> set xs. \<not> P x)"
  by (induction xs) auto

lemma strictEq_literal: "isLiteral tok \<Longrightarrow> strictEq x tok = (x = tok)"
  by (cases tok; cases x) (auto simp: isLiteral_def)

lemma registerPush_cases:
  "registerPush e s body =
     (if \<not> truthy (body_token body) then (sendJson 400 (errorBody ''token is required''), s)
      else if \<exists>entry \<in> set (pushTokens s). strictEq (token entry) (body_token body)
           then (okReply (body_token body), s)
      else afterPersist e (okReply (body_token body))
             (s\<lparr>pushTokens := pushTokens s @ [newEntry body]\<rparr>))"
proof (cases "find (\<lambda>entry. strictEq (token entry) (body_token body)) (pushTokens s)")
  case None
  then have "\<not> (\<exists>entry \<in> set (pushTokens s). strictEq (token entry) (body_token body))"
    by (simp add: find_None_iff')
  then show ?thesis
    using None by (simp add: registerPush_def Let_def okReply_def newEntry_def)
next
  case (Some x)
  then have "\<exists>entry \<in> set (pushTokens s). strictEq (token entry) (body_token body)"
    using find_None_iff' [of "\<lambda>entry. strictEq (token entry) (body_token body)" "pushTokens s"]
    by auto
  then show ?thesis
    using Some by (simp add: registerPush_def Let_def okReply_def)
qed

lemma registerPush_store:
  "bills (snd (registerPush e s body)) = bills s
   \<and> payments (snd (registerPush e s body)) = payments s
   \<and> (pushTokens (snd (registerPush e s body)) = pushTokens s
       \<or> truthy (body_token body)
         \<and> pushTokens (snd (registerPush e s body)) = pushTokens s @ [newEntry body])"
  by (simp add: registerPush_cases afterPersist_def)

lemma unregisterPush_store:
  "bills (snd (unregisterPush e s body)) = bills s
   \<and> payments (snd (unregisterPush e s body)) = payments s
   \<and> set (pushTokens (snd (unregisterPush e s body))) \<subseteq> set (pushTokens s)"
  by (auto simp: unregisterPush_def Let_def afterPersist_def)

lemma pushTokens_handle_other:
  "(\<forall>body. req \<noteq> RegisterPush body) \<Longrightarrow> (\<forall>body. req \<noteq> UnregisterPush body)
   \<Longrightarrow> pushTokens (snd (handle e s req)) = pushTokens s"
  by (cases req)
    (simp_all add: createBill_fields updateBill_store deleteBill_fields setPaid_fields)



lemma diskOk_e0: "diskOk e0"
  by (simp add: e0_def)

lemma isUUID_e0: "isUUID (uuid e0)"
  by (simp add: e0_def isUUID_def shape_def isDigitOf_def digitValue_def)


lemma no_uuid_s0: "\<not> hasBill s0 (uuid e0)"
  by (simp add: hasBill_def s0_def rent_def gym_def e0_def)

section \<open>Deletion cascades to the payment marks\<close>

lemma marksAreForBills_cong:
  assumes "marksAreForBills s" "payments s' = payments s"
    "set (map id' (bills s)) \<subseteq> set (map id' (bills s'))"
  shows "marksAreForBills s'"
  using assms unfolding marksAreForBills_def hasBill_ids by (metis subsetD)

lemma marksAreForBills_deleteBill:
  assumes inv: "marksAreForBills s"
  shows "marksAreForBills (snd (deleteBill e s billId))"
proof (cases "findIndex (\<lambda>item. id' item = billId) (bills s)")
  case None
  then show ?thesis using inv by (simp add: deleteBill_unknown)
next
  case (Some i)
  note st = deleteBill_store [OF Some, of e]
  show ?thesis
    unfolding marksAreForBills_def
  proof (intro allI impI)
    fix month marks j
    assume h: "payments (snd (deleteBill e s billId)) month = Some marks \<and> marks j \<noteq> None"
    then obtain m0 where m0: "payments s month = Some m0" "marks = m0(billId := None)"
      by (auto simp: st unmarkAll_def)
    with h have j: "j \<noteq> billId" "m0 j \<noteq> None" by (auto split: if_splits)
    then have "hasBill s j" using inv m0 by (auto simp: marksAreForBills_def)
    then obtain b where b: "b \<in> set (bills s)" "id' b = j"
      by (auto simp: hasBill_def list_ex_iff)
    have il: "i < length (bills s)" "id' (bills s ! i) = billId"
      using findIndex_Some [OF Some] by auto
    have "b \<in> set (splice1 i (bills s))"
      using set_splice1 [OF il(1)] b il(2) j(1) by auto
    then show "hasBill (snd (deleteBill e s billId)) j"
      using b by (auto simp: st hasBill_def list_ex_iff)
  qed
qed

lemma marksAreForBills_setPaid:
  assumes inv: "marksAreForBills s"
  shows "marksAreForBills (snd (setPaid e s billId body))"
proof (cases "hasBill s billId")
  case False
  then show ?thesis using inv by (simp add: setPaid_unknown)
next
  case True
  note st = setPaid_store [OF True, of e body]
  show ?thesis
    unfolding marksAreForBills_def
  proof (intro allI impI)
    fix month marks j
    assume h: "payments (snd (setPaid e s billId body)) month = Some marks \<and> marks j \<noteq> None"
    have "hasBill s j"
    proof (cases "j = billId")
      case True
      then show ?thesis using \<open>hasBill s billId\<close> by simp
    next
      case False
      then have "\<exists>m0. payments s month = Some m0 \<and> m0 j \<noteq> None"
        using h by (auto simp: st toggled_def marksOf_def split: if_splits option.splits)
      then show ?thesis using inv by (auto simp: marksAreForBills_def)
    qed
    then show "hasBill (snd (setPaid e s billId body)) j"
      by (simp add: st hasBill_def)
  qed
qed

lemma marksAreForBills_handle:
  assumes "marksAreForBills s"
  shows "marksAreForBills (snd (handle e s req))"
proof (cases req)
  case (CreateBill body)
  have "set (map id' (bills s)) \<subseteq> set (map id' (bills (snd (createBill e s body))))"
    using createBill_store [of e s body] by auto
  then show ?thesis
    using CreateBill marksAreForBills_cong [OF assms] createBill_fields [of e s body] by simp
next
  case (UpdateBill billId body)
  have "marksAreForBills (snd (updateBill e s billId body))"
    by (rule marksAreForBills_cong [OF assms])
      (use updateBill_store [of e s billId body] in simp_all)
  then show ?thesis using UpdateBill by simp
next
  case (DeleteBill billId)
  then show ?thesis using marksAreForBills_deleteBill [OF assms] by simp
next
  case (SetPaid billId body)
  then show ?thesis using marksAreForBills_setPaid [OF assms] by simp
next
  case (RegisterPush body)
  then show ?thesis
    using marksAreForBills_cong [OF assms] registerPush_store [of e s body] by simp
next
  case (UnregisterPush body)
  then show ?thesis
    using marksAreForBills_cong [OF assms] unregisterPush_store [of e s body] by simp
qed

lemma reachable_marks: "reachable s \<Longrightarrow> marksAreForBills s"
proof (induction rule: reachable.induct)
  case init
  show ?case by (simp add: emptyStore_def marksAreForBills_def)
next
  case (step s e req)
  then show ?case using marksAreForBills_handle by blast
qed





section \<open>Creation with the id of a stored bill\<close>








section \<open>Payment marks are scoped to a month\<close>









section \<open>Registration is idempotent\<close>

lemma distinct_literalTokens_register:
  assumes "distinct (literalTokens s)"
  shows "distinct (literalTokens (snd (registerPush e s body)))"
proof (cases "truthy (body_token body)
    \<and> \<not> (\<exists>entry \<in> set (pushTokens s). strictEq (token entry) (body_token body))")
  case False
  then have "snd (registerPush e s body) = s"
    by (auto simp: registerPush_cases)
  then show ?thesis using assms by simp
next
  case True
  then have st: "snd (registerPush e s body) = s\<lparr>pushTokens := pushTokens s @ [newEntry body]\<rparr>"
    by (simp add: registerPush_cases afterPersist_def)
  show ?thesis
  proof (cases "isLiteral (body_token body)")
    case lit: True
    have "body_token body \<notin> set (map token (pushTokens s))"
      using True strictEq_literal [OF lit] by auto
    then show ?thesis
      using assms lit by (simp add: st literalTokens_def newEntry_def)
  next
    case False
    then show ?thesis
      using assms by (simp add: st literalTokens_def newEntry_def)
  qed
qed

lemma distinct_literalTokens_unregister:
  assumes "distinct (literalTokens s)"
  shows "distinct (literalTokens (snd (unregisterPush e s body)))"
proof -
  have "literalTokens (snd (unregisterPush e s body))
      = literalTokens s
      \<or> literalTokens (snd (unregisterPush e s body))
      = filter isLiteral (map token (filter (\<lambda>entry. \<not> strictEq (token entry) (body_token body))
            (pushTokens s)))"
    by (simp add: unregisterPush_def Let_def afterPersist_def literalTokens_def)
  moreover have "distinct (filter isLiteral (map token
      (filter (\<lambda>entry. \<not> strictEq (token entry) (body_token body)) (pushTokens s))))"
  proof -
    have "map token (filter (\<lambda>entry. \<not> strictEq (token entry) (body_token body)) (pushTokens s))
        = filter (\<lambda>t. \<not> strictEq t (body_token body)) (map token (pushTokens s))"
      by (simp add: filter_map comp_def)
    then have "filter isLiteral (map token
        (filter (\<lambda>entry. \<not> strictEq (token entry) (body_token body)) (pushTokens s)))
        = filter (\<lambda>t. \<not> strictEq t (body_token body)) (literalTokens s)"
      by (simp add: literalTokens_def conj_commute)
    then show ?thesis
      using assms by simp
  qed
  ultimately show ?thesis using assms by auto
qed

lemma distinct_literalTokens_handle:
  assumes "distinct (literalTokens s)"
  shows "distinct (literalTokens (snd (handle e s req)))"
proof (cases req)
  case (RegisterPush body)
  then show ?thesis using distinct_literalTokens_register [OF assms] by simp
next
  case (UnregisterPush body)
  then show ?thesis using distinct_literalTokens_unregister [OF assms] by simp
qed (use assms pushTokens_handle_other [of req e s] in \<open>simp_all add: literalTokens_def\<close>)

lemma tokensTruthy_handle:
  assumes "tokensTruthy s"
  shows "tokensTruthy (snd (handle e s req))"
proof (cases req)
  case (RegisterPush body)
  then show ?thesis
    using assms registerPush_store [of e s body]
    by (auto simp: tokensTruthy_def newEntry_def)
next
  case (UnregisterPush body)
  then show ?thesis
    using assms unregisterPush_store [of e s body]
    by (auto simp: tokensTruthy_def list_all_iff)
qed (use assms pushTokens_handle_other [of req e s] in \<open>simp_all add: tokensTruthy_def\<close>)

lemma reachable_tokens: "reachable s \<Longrightarrow> distinct (literalTokens s) \<and> tokensTruthy s"
proof (induction rule: reachable.induct)
  case init
  show ?case by (simp add: emptyStore_def literalTokens_def tokensTruthy_def)
next
  case (step s e req)
  then show ?case
    using distinct_literalTokens_handle tokensTruthy_handle by blast
qed

text \<open>
  Claim C7. For every store that holds a registration with a literal token, registering
  that token again answers 200 with the token and leaves the store as it is; registration
  keeps the literal tokens of the store distinct, and in every store that the server
  reaches from the seed the literal tokens are distinct (and every token is truthy).
\<close>

theorem registerPush_idempotent:
  "(\<forall>entry \<in> set (pushTokens s). isLiteral (token entry) \<longrightarrow>
      registerPush e s \<lparr>body_token = token entry, body_platform = pf\<rparr>
        = (sendJson 200 (JObj [(''ok'', JBool True), (''token'', token entry)]), s))
   \<and> (distinct (literalTokens s) \<longrightarrow> distinct (literalTokens (snd (registerPush e s body))))
   \<and> (reachable s \<longrightarrow> distinct (literalTokens s) \<and> tokensTruthy s)"
proof (intro conjI ballI impI)
  fix entry
  assume "entry \<in> set (pushTokens s)" and lit: "isLiteral (token entry)"
  then have "\<exists>x \<in> set (pushTokens s). strictEq (token x) (token entry)"
    using strictEq_literal [OF lit] by auto
  moreover have "truthy (token entry)" using lit by (simp add: isLiteral_def)
  ultimately show "registerPush e s \<lparr>body_token = token entry, body_platform = pf\<rparr>
        = (sendJson 200 (JObj [(''ok'', JBool True), (''token'', token entry)]), s)"
    by (simp add: registerPush_cases okReply_def)
qed (simp_all add: distinct_literalTokens_register reachable_tokens)

lemma entry_s0:
  "\<lparr>token = JStr ''ExponentPushToken[abc]'', platform = JStr ''ios''\<rparr> \<in> set (pushTokens s0)"
  by (simp add: s0_def)

theorem registerPush_idempotent_witness:
  "isLiteral (JStr ''ExponentPushToken[abc]'')
   \<and> pushTokens s0 = [\<lparr>token = JStr ''ExponentPushToken[abc]'', platform = JStr ''ios''\<rparr>]
   \<and> registerPush e0 s0 again
       = (Response 200 (JObj [(''ok'', JBool True), (''token'', JStr ''ExponentPushToken[abc]'')]),
          s0)
   \<and> distinct (literalTokens s0)
   \<and> distinct (literalTokens (snd (registerPush e0 s0 again)))
   \<and> reachable (snd (handle e0 emptyStore (RegisterPush again)))
   \<and> distinct (literalTokens (snd (handle e0 emptyStore (RegisterPush again))))"
proof -
  have lit: "isLiteral (JStr ''ExponentPushToken[abc]'')"
    by (simp add: isLiteral_def)
  have "registerPush e0 s0
          \<lparr>body_token = token \<lparr>token = JStr ''ExponentPushToken[abc]'', platform = JStr ''ios''\<rparr>,
           body_platform = JStr ''android''\<rparr>
        = (sendJson 200 (JObj [(''ok'', JBool True),
             (''token'', token \<lparr>token = JStr ''ExponentPushToken[abc]'', platform = JStr ''ios''\<rparr>)]),
           s0)"
    using registerPush_idempotent [of s0 e0 "JStr ''android''"] entry_s0 lit by fastforce
  then have a: "registerPush e0 s0 again
       = (Response 200 (JObj [(''ok'', JBool True), (''token'', JStr ''ExponentPushToken[abc]'')]),
          s0)"
    by (simp add: again_def sendJson_def)
  have d: "distinct (literalTokens s0)"
    by (simp add: literalTokens_def s0_def)
  have d': "distinct (literalTokens (snd (registerPush e0 s0 again)))"
    using registerPush_idempotent [of s0 e0 "JStr ''android''" again] d by blast
  have r: "reachable (snd (handle e0 emptyStore (RegisterPush again)))"
    by (rule reachable.step [OF reachable.init isUUID_e0])
  have r': "distinct (literalTokens (snd (handle e0 emptyStore (RegisterPush again))))"
    using registerPush_idempotent
      [of "snd (handle e0 emptyStore (RegisterPush again))" e0 "JStr ''android''" again] r
    by blast
  show ?thesis
    using lit a d d' r r' by (simp add: s0_def)
qed

section \<open>The id of a created bill\<close>





lemma billIdOf_blank:
  "\<not> truthy (body_id body) \<or> (\<exists>sid. body_id body = JStr sid \<and> trim sid = [])
   \<Longrightarrow> billIdOf e body = Some (uuid e)"
  by (auto simp: billIdOf_def trimmedId_def trim_def)








lemma waterBody_valid: "passesValidation waterBody"
  by (simp add: passesValidation_def waterBody_def truthyText_def isNaN_def)


lemma trim_blank: "trim ''  '' = []"
  by (simp add: trim_def isWhiteSpace_def)




section \<open>The amount of a created bill\<close>

text \<open>An amount that is absent or falsy is stored as \<open>0\<close>.\<close>

lemma amount_default:
  "\<not> truthy (body_amount body) \<Longrightarrow> amount (newBillOf e body billId) = Fin 0"
  by (simp add: newBillOf_def)

lemma StringToNumber_abc: "StringToNumber ''abc'' = NaN"
  by (simp add: StringToNumber_def trim_def isWhiteSpace_def unsignedDecimal_def isDigitOf_def
      digitValue_def)

lemma waterBody_id: "billIdOf e0 waterBody = Some (uuid e0)"
  by (rule billIdOf_blank) (simp add: waterBody_def trim_blank)

text \<open>
  Claim C6. A request that passes validation with the amount \<^verbatim>\<open>"abc"\<close>, which is no
  number, is answered 201, and the amount of the stored bill is \<open>NaN\<close>, not \<open>0\<close>.
\<close>

theorem createBill_non_numeric_amount:
  "passesValidation waterBody \<and> body_amount waterBody = JStr ''abc''
   \<and> createBill e0 s0 waterBody
       = (Response 201 (billValue water), s0\<lparr>bills := [rent, gym, water]\<rparr>)
   \<and> amount water = NaN"
proof -
  have "newBillOf e0 waterBody (uuid e0) = water"
    by (simp add: newBillOf_def waterBody_def water_def e0_def textOrEmpty_def StringToNumber_abc)
  then have "createBill e0 s0 waterBody
       = (Response 201 (billValue water), s0\<lparr>bills := bills s0 @ [water]\<rparr>)"
    using waterBody_valid waterBody_id no_uuid_s0 diskOk_e0
    by (simp add: createBill_cases passesValidation_def afterPersist_def sendJson_def)
  moreover have "bills s0 @ [water] = [rent, gym, water]" by (simp add: s0_def)
  ultimately show ?thesis
    using waterBody_valid by (simp add: waterBody_def water_def)
qed

section \<open>Loading\<close>

text \<open>
  Claim C8. When the state file is missing (and the disk takes writes), loading returns
  the seed document, whose bill list, payment map and token list are empty, and leaves
  it written in the state file; when the file is there and its text is no JSON document,
  loading fails with the \<^verbatim>\<open>SyntaxError\<close> of the parser.
\<close>

theorem ensureStoreFile_load:
  "(storeFile d = Missing \<and> writeFault d = None \<longrightarrow>
      ensureStoreFile parse stringify d
        = Inr (seed, d\<lparr>dirExists := True, storeFile := Content (stringify seed)\<rparr>))
   \<and> (dirExists d \<and> storeFile d = Content raw \<and> parse raw = None \<longrightarrow>
        ensureStoreFile parse stringify d = Inl SyntaxError)
   \<and> seed = JObj [(''bills'', JArr []), (''payments'', JObj []), (''pushTokens'', JArr [])]"
  by (cases "dirExists d")
    (auto simp: ensureStoreFile_def mkdir_def readFile_def writeFile_def errorCode_def seed_def)

lemma truncated_seedText: "take 12 seedText \<noteq> seedText"
proof
  assume "take 12 seedText = seedText"
  then have "length (take 12 seedText) = length seedText" by simp
  then show False by (simp add: seedText_def quoted_def)
qed

theorem ensureStoreFile_load_witness:
  "storeFile missingDisk = Missing \<and> writeFault missingDisk = None
   \<and> ensureStoreFile parseSeedOnly printSeedOnly missingDisk
       = Inr (seed, \<lparr>dirExists = True, storeFile = Content seedText, writeFault = None\<rparr>)
   \<and> dirExists corruptDisk \<and> storeFile corruptDisk = Content (take 12 seedText)
   \<and> parseSeedOnly (take 12 seedText) = None
   \<and> ensureStoreFile parseSeedOnly printSeedOnly corruptDisk = Inl SyntaxError"
proof -
  have m: "storeFile missingDisk = Missing \<and> writeFault missingDisk = None"
    by (simp add: missingDisk_def)
  have c: "dirExists corruptDisk \<and> storeFile corruptDisk = Content (take 12 seedText)
      \<and> parseSeedOnly (take 12 seedText) = None"
    using truncated_seedText by (simp add: corruptDisk_def parseSeedOnly_def)
  have "ensureStoreFile parseSeedOnly printSeedOnly missingDisk
      = Inr (seed, missingDisk\<lparr>dirExists := True, storeFile := Content (printSeedOnly seed)\<rparr>)"
    using ensureStoreFile_load [where d = missingDisk and parse = parseSeedOnly
        and stringify = printSeedOnly] m by blast
  moreover have "ensureStoreFile parseSeedOnly printSeedOnly corruptDisk = Inl SyntaxError"
    using ensureStoreFile_load [where d = corruptDisk and raw = "take 12 seedText"
        and parse = parseSeedOnly and stringify = printSeedOnly] c
    by blast
  ultimately show ?thesis
    using m c by (simp add: missingDisk_def printSeedOnly_def)
qed

end
